theory Spec2Isabelle
  imports Main
begin

unbundle bit_operations_syntax

section \<open>The LS-8 emulator of \<open>ls8/cpu.py\<close>\<close>

text \<open>
  The emulator is a Python class \<open>CPU\<close> whose methods mutate the object in place.
  Python integers are unbounded, so memory cells, registers, the program counter and the
  flags are \<^typ>\<open>int\<close>; nothing in the source reduces a value modulo 256.
  Both \<open>ram\<close> and \<open>reg\<close> are Python lists, indexed with Python's rules: an index
  \<open>i\<close> with \<open>-n \<le> i < 0\<close> counts from the end, and an index outside \<open>[-n, n)\<close>
  raises \<open>IndexError\<close>.
  The file loader \<open>load\<close> and the debugging printer \<open>trace\<close> are left out: no
  statement below depends on them.
\<close>

subsection \<open>Constants (lines 6 to 25)\<close>

definition LDI :: int where "LDI = 0x82"   \<comment> \<open>\<open>0b10000010\<close>\<close>
definition PRN :: int where "PRN = 0x47"   \<comment> \<open>\<open>0b01000111\<close>\<close>
definition HLT :: int where "HLT = 0x01"   \<comment> \<open>\<open>0b00000001\<close>\<close>
definition ADD :: int where "ADD = 0xA0"   \<comment> \<open>\<open>0b10100000\<close>\<close>
definition MUL :: int where "MUL = 0xA2"   \<comment> \<open>\<open>0b10100010\<close>\<close>
definition PUSH :: int where "PUSH = 0x45" \<comment> \<open>\<open>0b01000101\<close>\<close>
definition POP :: int where "POP = 0x46"   \<comment> \<open>\<open>0b01000110\<close>\<close>
definition JMP :: int where "JMP = 0x54"   \<comment> \<open>\<open>0b01010100\<close>\<close>
definition CALL :: int where "CALL = 0x50" \<comment> \<open>\<open>0b01010000\<close>\<close>
definition RET :: int where "RET = 0x11"   \<comment> \<open>\<open>0b00010001\<close>\<close>
definition ST :: int where "ST = 0x84"     \<comment> \<open>\<open>0b10000100\<close>\<close>
definition CMP :: int where "CMP = 0xA7"   \<comment> \<open>\<open>0b10100111\<close>\<close>
definition JEQ :: int where "JEQ = 0x55"   \<comment> \<open>\<open>0b01010101\<close>\<close>
definition JNE :: int where "JNE = 0x56"   \<comment> \<open>\<open>0b01010110\<close>\<close>

definition SP :: int where "SP = 7"
definition L :: int where "L = 4"          \<comment> \<open>\<open>0b00000100\<close>\<close>
definition G :: int where "G = 2"          \<comment> \<open>\<open>0b00000010\<close>\<close>
definition E :: int where "E = 1"          \<comment> \<open>\<open>0b00000001\<close>\<close>

subsection \<open>Errors and the machine state\<close>

text \<open>
  Every way a method can stop early is a value: an out-of-range list index, the type
  error of an unsupported comparison or of a call with the wrong number of arguments,
  \<open>sys.exit(code)\<close>, and the \<open>Exception\<close> raised by the ALU.
\<close>

datatype error =
    IndexError
  | TypeError
  | SystemExit int
  | PyException string

text \<open>
  The fields of \<open>CPU.__init__\<close>. \<open>last_saved_time\<close> holds a \<open>datetime\<close>, kept as
  its position on the time line. \<open>stdout\<close> is not a field of the class: it collects the
  lines written by \<open>print\<close>, oldest first.
\<close>

record cpu =
  ram :: "int list"
  reg :: "int list"
  pc :: int
  fl :: int
  halted :: bool
  end_of_stack :: int
  last_saved_time :: int
  stdout :: "string list"

definition init_cpu :: "int \<Rightarrow> cpu" where
  "init_cpu now =
     \<lparr>ram = replicate 256 0,
      reg = (replicate 8 0)[nat SP := 0xF4],
      pc = 0x00,
      fl = 0,
      halted = False,
      end_of_stack = 0x00,
      last_saved_time = now,
      stdout = []\<rparr>"

text \<open>The shape the two lists keep for the whole run: item assignment never resizes.\<close>

definition well_formed :: "cpu \<Rightarrow> bool" where
  "well_formed s = (length (ram s) = 256 \<and> length (reg s) = 8)"

subsection \<open>Python list indexing\<close>

definition py_index :: "nat \<Rightarrow> int \<Rightarrow> nat option" where
  "py_index n i =
     (if 0 \<le> i \<and> i < int n then Some (nat i)
      else if - int n \<le> i \<and> i < 0 then Some (nat (int n + i))
      else None)"

definition py_get :: "int list \<Rightarrow> int \<Rightarrow> error + int" where
  "py_get xs i = (case py_index (length xs) i of None \<Rightarrow> Inl IndexError | Some k \<Rightarrow> Inr (xs ! k))"

definition py_set :: "int list \<Rightarrow> int \<Rightarrow> int \<Rightarrow> error + int list" where
  "py_set xs i v =
     (case py_index (length xs) i of None \<Rightarrow> Inl IndexError | Some k \<Rightarrow> Inr (xs[k := v]))"

subsection \<open>Statements as state transformers\<close>

text \<open>
  A method body is a function from the state before to either the error raised together
  with the state at that moment (mutations made before a \<open>raise\<close> stay), or the value
  returned together with the state after.
\<close>

type_synonym 'a action = "cpu \<Rightarrow> (error \<times> cpu) + ('a \<times> cpu)"

definition ret :: "'a \<Rightarrow> 'a action" where
  "ret x s = Inr (x, s)"

definition raise :: "error \<Rightarrow> 'a action" where
  "raise e s = Inl (e, s)"

definition andthen :: "'a action \<Rightarrow> ('a \<Rightarrow> 'b action) \<Rightarrow> 'b action" where
  "andthen m f s = (case m s of Inl x \<Rightarrow> Inl x | Inr (v, s') \<Rightarrow> f v s')"

definition lift :: "error + 'a \<Rightarrow> 'a action" where
  "lift r s = (case r of Inl e \<Rightarrow> Inl (e, s) | Inr v \<Rightarrow> Inr (v, s))"

definition reg_get :: "int \<Rightarrow> int action" where
  \<comment> \<open>\<open>self.reg[i]\<close>\<close>
  "reg_get i s = lift (py_get (reg s) i) s"

definition reg_set :: "int \<Rightarrow> int \<Rightarrow> unit action" where
  \<comment> \<open>\<open>self.reg[i] = v\<close>\<close>
  "reg_set i v s =
     (case py_set (reg s) i v of Inl e \<Rightarrow> Inl (e, s) | Inr r \<Rightarrow> Inr ((), s\<lparr>reg := r\<rparr>))"

definition ram_read :: "int \<Rightarrow> int action" where
  "ram_read MAR s = lift (py_get (ram s) MAR) s"

definition ram_write :: "int \<Rightarrow> int \<Rightarrow> unit action" where
  "ram_write MDR MAR s =
     (case py_set (ram s) MAR MDR of Inl e \<Rightarrow> Inl (e, s) | Inr r \<Rightarrow> Inr ((), s\<lparr>ram := r\<rparr>))"

definition get_pc :: "int action" where
  "get_pc s = Inr (pc s, s)"

definition set_pc :: "int \<Rightarrow> unit action" where
  "set_pc v s = Inr ((), s\<lparr>pc := v\<rparr>)"

definition get_fl :: "int action" where
  "get_fl s = Inr (fl s, s)"

definition set_fl :: "int \<Rightarrow> unit action" where
  "set_fl v s = Inr ((), s\<lparr>fl := v\<rparr>)"

definition set_halted :: "bool \<Rightarrow> unit action" where
  "set_halted b s = Inr ((), s\<lparr>halted := b\<rparr>)"

definition get_end_of_stack :: "int action" where
  "get_end_of_stack s = Inr (end_of_stack s, s)"

definition print :: "string \<Rightarrow> unit action" where
  "print line s = Inr ((), s\<lparr>stdout := stdout s @ [line]\<rparr>)"

definition sys_exit :: "int \<Rightarrow> 'a action" where
  "sys_exit code = raise (SystemExit code)"

text \<open>\<open>str\<close> of an integer, as \<open>print\<close> and the f-string format it: decimal digits.\<close>

fun str_nat :: "nat \<Rightarrow> string" where
  "str_nat n =
     (if n < 10 then [char_of (48 + n)] else str_nat (n div 10) @ [char_of (48 + n mod 10)])"

definition str_int :: "int \<Rightarrow> string" where
  "str_int i = (if i < 0 then CHR ''-'' # str_nat (nat (- i)) else str_nat (nat i))"

subsection \<open>The ALU (lines 70 to 85)\<close>

definition alu :: "int \<Rightarrow> int \<Rightarrow> int \<Rightarrow> unit action" where
  "alu op reg_a reg_b =
     (if op = ADD then
        andthen (reg_get reg_a) (\<lambda>x. andthen (reg_get reg_b) (\<lambda>y. reg_set reg_a (x + y)))
      else if op = MUL then
        andthen (reg_get reg_a) (\<lambda>x. andthen (reg_get reg_b) (\<lambda>y. reg_set reg_a (x * y)))
      else if op = CMP then
        andthen (reg_get reg_a) (\<lambda>x. andthen (reg_get reg_b) (\<lambda>y.
          if x = y then set_fl E
          else if x < y then set_fl L
          else set_fl G))
      else raise (PyException ''Unsupported ALU operation''))"

subsection \<open>The operation handlers (lines 184 to 241)\<close>

text \<open>\<open>self.reg[SP] -= 1\<close> and \<open>self.reg[SP] += 1\<close>: read the cell, then store.\<close>

definition dec_sp :: "unit action" where
  "dec_sp = andthen (reg_get SP) (\<lambda>sp. reg_set SP (sp - 1))"

definition inc_sp :: "unit action" where
  "inc_sp = andthen (reg_get SP) (\<lambda>sp. reg_set SP (sp + 1))"

definition handle_LDI :: "int \<Rightarrow> int \<Rightarrow> unit action" where
  "handle_LDI operand_a operand_b = reg_set operand_a operand_b"

definition handle_PRN :: "int \<Rightarrow> unit action" where
  "handle_PRN operand_a = andthen (reg_get operand_a) (\<lambda>v. print (str_int v))"

definition handle_HLT :: "unit action" where
  "handle_HLT = set_halted True"

definition handle_ALU :: "int \<Rightarrow> int \<Rightarrow> unit action" where
  "handle_ALU operand_a operand_b =
     andthen get_pc (\<lambda>p. andthen (ram_read p) (\<lambda>IR. alu IR operand_a operand_b))"

definition handle_PUSH :: "int \<Rightarrow> unit action" where
  "handle_PUSH operand_a =
     andthen (reg_get SP) (\<lambda>sp. andthen get_end_of_stack (\<lambda>eos.
       if sp - 1 < eos then
         andthen (print ''STACK OVERFLOW! Exceeded maximum allocated space for the stack...'')
           (\<lambda>_. sys_exit 1)
       else
         andthen dec_sp (\<lambda>_.
         andthen (reg_get operand_a) (\<lambda>value_in_register.
         andthen (reg_get SP) (\<lambda>sp'. ram_write value_in_register sp')))))"

definition handle_POP :: "int \<Rightarrow> unit action" where
  "handle_POP operand_a =
     andthen (reg_get SP) (\<lambda>sp.
       if sp < 0xF4 then
         andthen (ram_read sp) (\<lambda>value_in_stack_pointer_register.
         andthen (reg_set operand_a value_in_stack_pointer_register) (\<lambda>_. inc_sp))
       else
         andthen (print ''STACK UNDERFLOW! Stack is empty...'') (\<lambda>_. sys_exit 1))"

definition handle_JUMP :: "int \<Rightarrow> unit action" where
  "handle_JUMP operand_a = andthen (reg_get operand_a) (\<lambda>address_to_jump_to. set_pc address_to_jump_to)"

definition handle_CALL :: "int \<Rightarrow> unit action" where
  "handle_CALL operand_a =
     andthen dec_sp (\<lambda>_.
     andthen get_pc (\<lambda>p.
     andthen (reg_get SP) (\<lambda>sp.
     andthen (ram_write (p + 2) sp) (\<lambda>_.
     andthen (reg_get operand_a) (\<lambda>target. set_pc target)))))"

definition handle_RET :: "unit action" where
  "handle_RET =
     andthen (reg_get SP) (\<lambda>sp.
     andthen (ram_read sp) (\<lambda>v.
     andthen (set_pc v) (\<lambda>_. inc_sp)))"

definition handle_ST :: "int \<Rightarrow> int \<Rightarrow> unit action" where
  "handle_ST operand_a operand_b =
     andthen (reg_get operand_b) (\<lambda>v.
     andthen (reg_get operand_a) (\<lambda>addr. ram_write v addr))"

definition handle_JEQ :: "int \<Rightarrow> unit action" where
  "handle_JEQ operand_a =
     andthen get_fl (\<lambda>f.
       if f = E then andthen (reg_get operand_a) (\<lambda>target. set_pc target)
       else andthen get_pc (\<lambda>p. set_pc (p + 2)))"

definition handle_JNE :: "int \<Rightarrow> unit action" where
  "handle_JNE operand_a =
     andthen get_fl (\<lambda>f.
       if f \<noteq> E then andthen (reg_get operand_a) (\<lambda>target. set_pc target)
       else andthen get_pc (\<lambda>p. set_pc (p + 2)))"

subsection \<open>Time values\<close>

text \<open>
  \<open>datetime.now()\<close> is an input of every cycle. The difference of two \<open>datetime\<close>
  values is a \<open>timedelta\<close>, and Python's \<open>timedelta\<close> is ordered against another
  \<open>timedelta\<close> only: \<open>timedelta >= int\<close> finds no implementation on either side and
  raises \<open>TypeError\<close>, whatever the two values are.
\<close>

datatype pyval = PyInt int | PyTimedelta int

definition datetime_sub :: "int \<Rightarrow> int \<Rightarrow> pyval" where
  "datetime_sub t1 t2 = PyTimedelta (t1 - t2)"

fun py_ge :: "pyval \<Rightarrow> pyval \<Rightarrow> error + bool" where
  "py_ge (PyInt a) (PyInt b) = Inr (b \<le> a)"
| "py_ge (PyTimedelta a) (PyTimedelta b) = Inr (b \<le> a)"
| "py_ge (PyTimedelta a) (PyInt b) = Inl TypeError"
| "py_ge (PyInt a) (PyTimedelta b) = Inl TypeError"

definition get_last_saved_time :: "int action" where
  "get_last_saved_time s = Inr (last_saved_time s, s)"

definition set_last_saved_time :: "int \<Rightarrow> unit action" where
  "set_last_saved_time t s = Inr ((), s\<lparr>last_saved_time := t\<rparr>)"

subsection \<open>One cycle: \<open>execute_instruction\<close> (lines 117 to 180)\<close>

text \<open>
  The method runs three blocks in sequence; each is a definition of its own here, and
  \<open>execute_instruction\<close> is their composition in the order of the source.
\<close>

text \<open>
  The branch table maps an opcode to a bound method. A bound method is called with the
  number of operands read off the opcode; Python raises \<open>TypeError\<close> when that is not
  the number of parameters the method has.
\<close>

datatype handler =
    H0 "unit action"
  | H1 "int \<Rightarrow> unit action"
  | H2 "int \<Rightarrow> int \<Rightarrow> unit action"

definition branchtable :: "(int \<times> handler) list" where
  "branchtable =
     [(LDI, H2 handle_LDI),
      (PRN, H1 handle_PRN),
      (HLT, H0 handle_HLT),
      (ADD, H2 handle_ALU),
      (MUL, H2 handle_ALU),
      (PUSH, H1 handle_PUSH),
      (POP, H1 handle_POP),
      (JMP, H1 handle_JUMP),
      (CALL, H1 handle_CALL),
      (RET, H0 handle_RET),
      (ST, H2 handle_ST),
      (CMP, H2 handle_ALU),
      (JEQ, H1 handle_JEQ),
      (JNE, H1 handle_JNE)]"

fun call_handler :: "handler \<Rightarrow> int list \<Rightarrow> unit action" where
  "call_handler (H0 f) [] = f"
| "call_handler (H1 f) [a] = f a"
| "call_handler (H2 f) [a, b] = f a b"
| "call_handler _ _ = raise TypeError"

text \<open>Lines 138 to 142: the timer guard.\<close>

definition timer_check :: "int \<Rightarrow> unit action" where
  "timer_check curr_time =
     andthen get_last_saved_time (\<lambda>last.
     andthen (lift (py_ge (datetime_sub curr_time last) (PyInt 1))) (\<lambda>elapsed.
       if elapsed then
         andthen (set_last_saved_time curr_time) (\<lambda>_. reg_set 6 0x80)
       else ret ()))"

text \<open>
  Lines 152 to 160: the state save. The inner \<open>for i in range(7)\<close> is the recursion of
  \<open>push_regs\<close> over the indices \<open>0, ..., 6\<close>.
\<close>

fun push_regs :: "int list \<Rightarrow> unit action" where
  "push_regs [] = ret ()"
| "push_regs (i # rest) =
     andthen dec_sp (\<lambda>_.
     andthen (reg_get i) (\<lambda>v.
     andthen (reg_get SP) (\<lambda>sp.
     andthen (ram_write v sp) (\<lambda>_. push_regs rest))))"

definition save_state :: "unit action" where
  "save_state =
     andthen (reg_set 5 0) (\<lambda>_.
     andthen (reg_set 6 0) (\<lambda>_.
     andthen dec_sp (\<lambda>_.
     andthen get_pc (\<lambda>p.
     andthen (reg_get SP) (\<lambda>sp.
     andthen (ram_write p sp) (\<lambda>_.
     andthen dec_sp (\<lambda>_.
     andthen get_fl (\<lambda>f.
     andthen (reg_get SP) (\<lambda>sp'.
     andthen (ram_write f sp') (\<lambda>_.
     push_regs [0, 1, 2, 3, 4, 5, 6]))))))))))"

text \<open>
  Lines 146 to 163: \<open>for i in range(8)\<close> with its \<open>break\<close>; the list is the bit
  positions still to look at.
\<close>

fun scan_interrupts :: "int \<Rightarrow> nat list \<Rightarrow> unit action" where
  "scan_interrupts masked_interrupts [] = ret ()"
| "scan_interrupts masked_interrupts (i # rest) =
     (if (drop_bit i masked_interrupts) AND 1 = 1 then save_state
      else scan_interrupts masked_interrupts rest)"

definition interrupt_check :: "unit action" where
  "interrupt_check =
     andthen (reg_get 5) (\<lambda>im.
     andthen (reg_get 6) (\<lambda>is.
       scan_interrupts (im AND is) [0, 1, 2, 3, 4, 5, 6, 7]))"

text \<open>Lines 118, 119 and 167 to 180: decoding, the table lookup, the call and the PC advance.\<close>

definition dispatch :: "int \<Rightarrow> int \<Rightarrow> int \<Rightarrow> unit action" where
  "dispatch IR operand_a operand_b =
     (let number_of_operands = (drop_bit 6 IR) AND 3;
          sets_pc = (drop_bit 4 IR) AND 1
      in
        andthen
          (case map_of branchtable IR of
             None \<Rightarrow>
               andthen (print (''Unknown instruction '' @ str_int IR)) (\<lambda>_. set_halted True)
           | Some h \<Rightarrow>
               if number_of_operands = 2 then call_handler h [operand_a, operand_b]
               else if number_of_operands = 1 then call_handler h [operand_a]
               else call_handler h [])
          (\<lambda>_. if sets_pc = 0
                then andthen get_pc (\<lambda>p. set_pc (p + (number_of_operands + 1)))
                else ret ()))"

definition execute_instruction :: "int \<Rightarrow> int \<Rightarrow> int \<Rightarrow> int \<Rightarrow> unit action" where
  "execute_instruction curr_time IR operand_a operand_b =
     andthen (timer_check curr_time) (\<lambda>_.
     andthen interrupt_check (\<lambda>_.
     dispatch IR operand_a operand_b))"

subsection \<open>The run loop (lines 107 to 115)\<close>

text \<open>
  One pass of the loop body: the three reads, then the cycle. \<open>clock n\<close> is what
  \<open>datetime.now()\<close> returns in the \<open>n\<close>-th cycle.
\<close>

definition cycle :: "int \<Rightarrow> unit action" where
  "cycle curr_time =
     andthen get_pc (\<lambda>p.
     andthen (ram_read p) (\<lambda>IR.
     andthen (ram_read (p + 1)) (\<lambda>operand_a.
     andthen (ram_read (p + 2)) (\<lambda>operand_b.
       execute_instruction curr_time IR operand_a operand_b))))"

text \<open>
  The loop may run forever (a program that never halts), so \<open>run\<close> is partial:
  \<open>None\<close> is a run that does not return.
\<close>

partial_function (option) run :: "(nat \<Rightarrow> int) \<Rightarrow> nat \<Rightarrow> cpu \<Rightarrow> ((error \<times> cpu) + (unit \<times> cpu)) option" where
  "run clock n s =
     (if halted s then Some (Inr ((), s))
      else case cycle (clock n) s of
             Inl x \<Rightarrow> Some (Inl x)
           | Inr (u, s') \<Rightarrow> run clock (Suc n) s')"

section \<open>Basic facts about the state transformers\<close>

declare str_nat.simps [simp del]

lemmas opcode_defs =
  LDI_def PRN_def HLT_def ADD_def MUL_def PUSH_def POP_def JMP_def CALL_def RET_def
  ST_def CMP_def JEQ_def JNE_def

lemmas flag_defs = L_def G_def E_def

lemma reg_get_ok:
  "length (reg s) = 8 \<Longrightarrow> 0 \<le> i \<Longrightarrow> i < 8 \<Longrightarrow> reg_get i s = Inr (reg s ! nat i, s)"
  by (simp add: reg_get_def lift_def py_get_def py_index_def)

lemma reg_set_ok:
  "length (reg s) = 8 \<Longrightarrow> 0 \<le> i \<Longrightarrow> i < 8 \<Longrightarrow>
   reg_set i v s = Inr ((), s\<lparr>reg := (reg s)[nat i := v]\<rparr>)"
  by (simp add: reg_set_def py_set_def py_index_def)

lemma ram_read_ok:
  "length (ram s) = 256 \<Longrightarrow> 0 \<le> a \<Longrightarrow> a < 256 \<Longrightarrow> ram_read a s = Inr (ram s ! nat a, s)"
  by (simp add: ram_read_def lift_def py_get_def py_index_def)

lemma ram_write_ok:
  "length (ram s) = 256 \<Longrightarrow> 0 \<le> a \<Longrightarrow> a < 256 \<Longrightarrow>
   ram_write v a s = Inr ((), s\<lparr>ram := (ram s)[nat a := v]\<rparr>)"
  by (simp add: ram_write_def py_set_def py_index_def)

lemma andthen_Inl: "m s = Inl x \<Longrightarrow> andthen m f s = Inl x"
  by (simp add: andthen_def)

lemmas prim_defs =
  get_pc_def set_pc_def get_fl_def set_fl_def set_halted_def get_end_of_stack_def
  print_def sys_exit_def raise_def ret_def get_last_saved_time_def set_last_saved_time_def

lemma dec_sp_ok:
  "length (reg s) = 8 \<Longrightarrow> dec_sp s = Inr ((), s\<lparr>reg := (reg s)[7 := reg s ! 7 - 1]\<rparr>)"
  by (simp add: dec_sp_def andthen_def reg_get_ok reg_set_ok SP_def)

lemma inc_sp_ok:
  "length (reg s) = 8 \<Longrightarrow> inc_sp s = Inr ((), s\<lparr>reg := (reg s)[7 := reg s ! 7 + 1]\<rparr>)"
  by (simp add: inc_sp_def andthen_def reg_get_ok reg_set_ok SP_def)

lemma well_formed_init: "well_formed (init_cpu now)"
  by (simp add: well_formed_def init_cpu_def)

section \<open>The ALU\<close>

text \<open>
  Claim C1, as the code has it. For valid register indices \<open>a\<close> and \<open>b\<close>, the ALU
  operation ADD leaves \<open>reg[a]\<close> equal to the integer \<open>reg[a] + reg[b]\<close> and MUL leaves
  it equal to the integer \<open>reg[a] * reg[b]\<close>, both computed from the contents before the
  operation; no reduction modulo 256 takes place, and nothing else of the state changes.
\<close>

theorem alu_add_mul_unbounded:
  assumes "well_formed s" "0 \<le> a" "a < 8" "0 \<le> b" "b < 8"
  shows "alu ADD a b s = Inr ((), s\<lparr>reg := (reg s)[nat a := reg s ! nat a + reg s ! nat b]\<rparr>)
       \<and> alu MUL a b s = Inr ((), s\<lparr>reg := (reg s)[nat a := reg s ! nat a * reg s ! nat b]\<rparr>)"
  using assms
  by (simp add: alu_def well_formed_def andthen_def reg_get_ok reg_set_ok opcode_defs)

theorem alu_add_mul_unbounded_witness:
  "alu ADD 0 1 ((init_cpu 0)\<lparr>reg := [8, 9, 0, 0, 0, 0, 0, 0xF4]\<rparr>)
     = Inr ((), (init_cpu 0)\<lparr>reg := [17, 9, 0, 0, 0, 0, 0, 0xF4]\<rparr>)
   \<and> alu MUL 0 1 ((init_cpu 0)\<lparr>reg := [8, 9, 0, 0, 0, 0, 0, 0xF4]\<rparr>)
     = Inr ((), (init_cpu 0)\<lparr>reg := [72, 9, 0, 0, 0, 0, 0, 0xF4]\<rparr>)"
  using alu_add_mul_unbounded [of "(init_cpu 0)\<lparr>reg := [8, 9, 0, 0, 0, 0, 0, 0xF4]\<rparr>" 0 1]
  by (simp add: well_formed_def init_cpu_def)

text \<open>
  Claim C1 as stated fails: with the 8-bit contents \<open>reg[0] = 200\<close> and \<open>reg[1] = 100\<close>,
  ADD leaves \<open>reg[0] = 300\<close>, not \<open>300 mod 256 = 44\<close>, and MUL leaves
  \<open>reg[0] = 20000\<close>, not \<open>20000 mod 256 = 32\<close>.
\<close>

theorem alu_add_mul_not_mod_256:
  "alu ADD 0 1 ((init_cpu 0)\<lparr>reg := [200, 100, 0, 0, 0, 0, 0, 0xF4]\<rparr>)
     = Inr ((), (init_cpu 0)\<lparr>reg := [300, 100, 0, 0, 0, 0, 0, 0xF4]\<rparr>)
   \<and> (300 :: int) \<noteq> (200 + 100) mod 256
   \<and> alu MUL 0 1 ((init_cpu 0)\<lparr>reg := [200, 100, 0, 0, 0, 0, 0, 0xF4]\<rparr>)
     = Inr ((), (init_cpu 0)\<lparr>reg := [20000, 100, 0, 0, 0, 0, 0, 0xF4]\<rparr>)
   \<and> (20000 :: int) \<noteq> (200 * 100) mod 256"
  by (simp add: alu_def andthen_def reg_get_ok reg_set_ok opcode_defs init_cpu_def)

text \<open>
  Claim C8. For valid register indices \<open>x\<close> and \<open>y\<close> and any register contents, the ALU
  operation CMP sets the flags register to \<open>E\<close> if \<open>reg[x] = reg[y]\<close>, to \<open>L\<close> if
  \<open>reg[x] < reg[y]\<close> and to \<open>G\<close> otherwise, and changes nothing else; the three flag
  values are pairwise different, so exactly one of them is set.
\<close>

theorem alu_cmp_flags:
  assumes "well_formed s" "0 \<le> x" "x < 8" "0 \<le> y" "y < 8"
  shows "alu CMP x y s =
           Inr ((), s\<lparr>fl := (if reg s ! nat x = reg s ! nat y then E
                              else if reg s ! nat x < reg s ! nat y then L else G)\<rparr>)
       \<and> distinct [L, G, E]"
  using assms
  by (simp add: alu_def well_formed_def andthen_def reg_get_ok opcode_defs flag_defs prim_defs)

theorem alu_cmp_flags_witness:
  "alu CMP 0 1 ((init_cpu 0)\<lparr>reg := [8, 9, 0, 0, 0, 0, 0, 0xF4]\<rparr>)
     = Inr ((), (init_cpu 0)\<lparr>reg := [8, 9, 0, 0, 0, 0, 0, 0xF4], fl := 4\<rparr>)
   \<and> alu CMP 1 0 ((init_cpu 0)\<lparr>reg := [8, 9, 0, 0, 0, 0, 0, 0xF4]\<rparr>)
     = Inr ((), (init_cpu 0)\<lparr>reg := [8, 9, 0, 0, 0, 0, 0, 0xF4], fl := 2\<rparr>)
   \<and> alu CMP 1 1 ((init_cpu 0)\<lparr>reg := [8, 9, 0, 0, 0, 0, 0, 0xF4]\<rparr>)
     = Inr ((), (init_cpu 0)\<lparr>reg := [8, 9, 0, 0, 0, 0, 0, 0xF4], fl := 1\<rparr>)"
  using alu_cmp_flags [of "(init_cpu 0)\<lparr>reg := [8, 9, 0, 0, 0, 0, 0, 0xF4]\<rparr>" 0 1]
    alu_cmp_flags [of "(init_cpu 0)\<lparr>reg := [8, 9, 0, 0, 0, 0, 0, 0xF4]\<rparr>" 1 0]
    alu_cmp_flags [of "(init_cpu 0)\<lparr>reg := [8, 9, 0, 0, 0, 0, 0, 0xF4]\<rparr>" 1 1]
  by (simp add: well_formed_def init_cpu_def flag_defs)


section \<open>The stack: PUSH, POP, CALL and RET\<close>

text \<open>
  Claim C3. For every valid register index \<open>r\<close>: if \<open>SP - 1\<close> is below the end-of-stack
  boundary, PUSH prints the stack-overflow message and exits with status 1, and memory, SP
  and every other field but the output are as before. Otherwise (the new SP being a
  memory address) PUSH first decrements SP by 1 and then writes the value the register
  holds at that moment to memory at the new SP.
\<close>

theorem push_overflow_or_store:
  assumes "well_formed s" "0 \<le> r" "r < 8"
  shows "(reg s ! 7 - 1 < end_of_stack s \<longrightarrow>
            handle_PUSH r s =
              Inl (SystemExit 1, s\<lparr>stdout := stdout s @
                [''STACK OVERFLOW! Exceeded maximum allocated space for the stack...'']\<rparr>))
       \<and> (\<not> reg s ! 7 - 1 < end_of_stack s \<and> 0 \<le> reg s ! 7 - 1 \<and> reg s ! 7 - 1 < 256 \<longrightarrow>
            handle_PUSH r s =
              Inr ((), s\<lparr>reg := (reg s)[7 := reg s ! 7 - 1],
                         ram := (ram s)[nat (reg s ! 7 - 1) :=
                                  ((reg s)[7 := reg s ! 7 - 1]) ! nat r]\<rparr>))"
  using assms
  by (simp add: handle_PUSH_def well_formed_def andthen_def dec_sp_ok reg_get_ok ram_write_ok
      SP_def prim_defs)

theorem push_overflow_or_store_witness:
  "handle_PUSH 0 ((init_cpu 0)\<lparr>reg := [5, 9, 0, 0, 0, 0, 0, 0xF4], end_of_stack := 0xF4\<rparr>)
     = Inl (SystemExit 1,
            (init_cpu 0)\<lparr>reg := [5, 9, 0, 0, 0, 0, 0, 0xF4], end_of_stack := 0xF4,
              stdout := [''STACK OVERFLOW! Exceeded maximum allocated space for the stack...'']\<rparr>)
   \<and> handle_PUSH 0 ((init_cpu 0)\<lparr>reg := [5, 9, 0, 0, 0, 0, 0, 0xF4]\<rparr>)
     = Inr ((), (init_cpu 0)\<lparr>reg := [5, 9, 0, 0, 0, 0, 0, 0xF3],
                               ram := (replicate 256 0)[0xF3 := 5]\<rparr>)"
  using
    push_overflow_or_store
      [of "(init_cpu 0)\<lparr>reg := [5, 9, 0, 0, 0, 0, 0, 0xF4], end_of_stack := 0xF4\<rparr>" 0]
    push_overflow_or_store [of "(init_cpu 0)\<lparr>reg := [5, 9, 0, 0, 0, 0, 0, 0xF4]\<rparr>" 0]
  by (simp add: well_formed_def init_cpu_def)

text \<open>
  Claim C4. For every valid register index \<open>r\<close>: if SP is at or above \<open>0xF4\<close>, POP
  prints the stack-underflow message and exits with status 1, and the registers (the
  destination and SP among them) are as before. Otherwise (SP being a memory address) POP
  reads memory at SP into the register and then increments SP by 1.
\<close>

theorem pop_underflow_or_load:
  assumes "well_formed s" "0 \<le> r" "r < 8"
  shows "(0xF4 \<le> reg s ! 7 \<longrightarrow>
            handle_POP r s =
              Inl (SystemExit 1, s\<lparr>stdout := stdout s @
                [''STACK UNDERFLOW! Stack is empty...'']\<rparr>))
       \<and> (reg s ! 7 < 0xF4 \<and> 0 \<le> reg s ! 7 \<longrightarrow>
            handle_POP r s =
              Inr ((), s\<lparr>reg := ((reg s)[nat r := ram s ! nat (reg s ! 7)])
                         [7 := ((reg s)[nat r := ram s ! nat (reg s ! 7)]) ! 7 + 1]\<rparr>))"
  using assms
  by (simp add: handle_POP_def well_formed_def andthen_def inc_sp_ok reg_get_ok reg_set_ok
      ram_read_ok SP_def prim_defs)

theorem pop_underflow_or_load_witness:
  "handle_POP 1 ((init_cpu 0)\<lparr>reg := [5, 9, 0, 0, 0, 0, 0, 0xF4]\<rparr>)
     = Inl (SystemExit 1,
            (init_cpu 0)\<lparr>reg := [5, 9, 0, 0, 0, 0, 0, 0xF4],
              stdout := [''STACK UNDERFLOW! Stack is empty...'']\<rparr>)
   \<and> handle_POP 1 ((init_cpu 0)\<lparr>reg := [5, 9, 0, 0, 0, 0, 0, 0xF3],
                                  ram := (replicate 256 0)[0xF3 := 42]\<rparr>)
     = Inr ((), (init_cpu 0)\<lparr>reg := [5, 42, 0, 0, 0, 0, 0, 0xF4],
                               ram := (replicate 256 0)[0xF3 := 42]\<rparr>)"
  using
    pop_underflow_or_load [of "(init_cpu 0)\<lparr>reg := [5, 9, 0, 0, 0, 0, 0, 0xF4]\<rparr>" 1]
    pop_underflow_or_load
      [of "(init_cpu 0)\<lparr>reg := [5, 9, 0, 0, 0, 0, 0, 0xF3],
                         ram := (replicate 256 0)[0xF3 := 42]\<rparr>" 1]
  by (simp add: well_formed_def init_cpu_def)

text \<open>
  Claim C5. Let CALL execute at address \<open>p = pc s\<close> with a valid register index and a new
  SP that is a memory address. CALL succeeds and sets PC to the register's value. In the
  state it leaves, and in every later state in which SP and the memory cell at SP are
  what CALL left there (the called routine has kept the stack balanced), RET succeeds,
  sets PC to exactly \<open>p + 2\<close> and puts SP back to its value before the CALL.
\<close>

theorem call_then_ret_returns_after_call:
  assumes "well_formed s" "0 \<le> a" "a < 8" "0 \<le> reg s ! 7 - 1" "reg s ! 7 - 1 < 256"
  shows "\<exists>s1. handle_CALL a s = Inr ((), s1) \<and> well_formed s1 \<and>
           pc s1 = ((reg s)[7 := reg s ! 7 - 1]) ! nat a \<and>
           (\<forall>t. well_formed t \<and> reg t ! 7 = reg s1 ! 7 \<and>
                ram t ! nat (reg t ! 7) = ram s1 ! nat (reg s1 ! 7) \<longrightarrow>
                (\<exists>u. handle_RET t = Inr ((), u) \<and> pc u = pc s + 2 \<and> reg u ! 7 = reg s ! 7))"
  using assms
  by (auto simp add: handle_CALL_def handle_RET_def well_formed_def andthen_def dec_sp_ok
      inc_sp_ok reg_get_ok ram_read_ok ram_write_ok SP_def prim_defs)

theorem call_then_ret_returns_after_call_witness:
  "\<exists>u. andthen (handle_CALL 0) (\<lambda>_. handle_RET)
          ((init_cpu 0)\<lparr>reg := [24, 9, 0, 0, 0, 0, 0, 0xF4], pc := 6\<rparr>) = Inr ((), u)
       \<and> pc u = 8 \<and> reg u ! 7 = 0xF4"
proof -
  let ?s = "(init_cpu 0)\<lparr>reg := [24, 9, 0, 0, 0, 0, 0, 0xF4], pc := 6\<rparr>"
  have "well_formed ?s" "0 \<le> reg ?s ! 7 - 1" "reg ?s ! 7 - 1 < 256"
    by (simp_all add: well_formed_def init_cpu_def)
  from call_then_ret_returns_after_call [OF this(1) _ _ this(2,3), of 0]
  obtain s1 where call: "handle_CALL 0 ?s = Inr ((), s1)" and wf1: "well_formed s1"
    and later: "\<forall>t. well_formed t \<and> reg t ! 7 = reg s1 ! 7 \<and>
                  ram t ! nat (reg t ! 7) = ram s1 ! nat (reg s1 ! 7) \<longrightarrow>
                  (\<exists>u. handle_RET t = Inr ((), u) \<and> pc u = pc ?s + 2 \<and> reg u ! 7 = reg ?s ! 7)"
    by auto
  from later wf1 obtain u where "handle_RET s1 = Inr ((), u)" "pc u = pc ?s + 2"
    "reg u ! 7 = reg ?s ! 7"
    by blast
  with call show ?thesis by (simp add: andthen_def init_cpu_def)
qed

text \<open>
  Claim C6. For every valid register index \<open>r\<close> and every state in which PUSH stays
  within the stack (the new SP is a memory address at or above the end-of-stack boundary,
  and SP is at most \<open>0xF4\<close>), PUSH of \<open>r\<close> immediately followed by POP of \<open>r\<close> succeeds and
  leaves both \<open>reg[r]\<close> and SP at their original values.
\<close>

theorem push_pop_round_trip:
  assumes "well_formed s" "0 \<le> r" "r < 8"
    and "\<not> reg s ! 7 - 1 < end_of_stack s" "0 \<le> reg s ! 7 - 1" "reg s ! 7 \<le> 0xF4"
  shows "\<exists>s2. andthen (handle_PUSH r) (\<lambda>_. handle_POP r) s = Inr ((), s2) \<and>
           reg s2 ! nat r = reg s ! nat r \<and> reg s2 ! 7 = reg s ! 7"
  using assms
  by (simp add: handle_PUSH_def handle_POP_def well_formed_def andthen_def dec_sp_ok inc_sp_ok
      reg_get_ok reg_set_ok ram_read_ok ram_write_ok SP_def prim_defs nth_list_update)

theorem push_pop_round_trip_witness:
  "\<exists>s2. andthen (handle_PUSH 7) (\<lambda>_. handle_POP 7)
           ((init_cpu 0)\<lparr>reg := [5, 9, 0, 0, 0, 0, 0, 0xF4]\<rparr>) = Inr ((), s2)
        \<and> reg s2 ! 7 = 0xF4"
  using push_pop_round_trip [of "(init_cpu 0)\<lparr>reg := [5, 9, 0, 0, 0, 0, 0, 0xF4]\<rparr>" 7]
  by (simp add: well_formed_def init_cpu_def)


section \<open>The cycle: timer guard, interrupt check and dispatch\<close>

lemma timer_check_raises: "timer_check t s = Inl (TypeError, s)"
  by (simp add: timer_check_def andthen_def lift_def datetime_sub_def prim_defs)

lemma execute_instruction_raises: "execute_instruction t IR a b s = Inl (TypeError, s)"
  by (simp add: execute_instruction_def andthen_Inl [OF timer_check_raises])

lemma cycle_raises:
  assumes "well_formed s" "0 \<le> pc s" "pc s + 2 < 256"
  shows "cycle t s = Inl (TypeError, s)"
  using assms
  by (simp add: cycle_def andthen_def well_formed_def ram_read_ok prim_defs
      execute_instruction_raises)

lemma run_raises:
  assumes "\<not> halted s" "well_formed s" "0 \<le> pc s" "pc s + 2 < 256"
  shows "run clock n s = Some (Inl (TypeError, s))"
  using assms by (subst run.simps) (simp add: cycle_raises)

text \<open>
  Claim C2. For every time of the call, every instruction byte, every pair of operands
  and every state, \<open>execute_instruction\<close> raises \<open>TypeError\<close> at the timer guard: the
  state it raises in is the state it was called in, so neither the interrupt check nor
  any handler has run. Hence a run loop entered in a state that is not halted, whose
  three reads at PC are in range, ends with that error in its first cycle.
\<close>

theorem execute_instruction_timer_guard_raises:
  "execute_instruction curr_time IR operand_a operand_b s = Inl (TypeError, s) \<and>
   (\<not> halted s \<and> well_formed s \<and> 0 \<le> pc s \<and> pc s + 2 < 256 \<longrightarrow>
      run clock n s = Some (Inl (TypeError, s)))"
  by (simp add: execute_instruction_raises run_raises)

theorem execute_instruction_timer_guard_raises_witness:
  "execute_instruction 1000000 HLT 0 0 (init_cpu 0) = Inl (TypeError, init_cpu 0) \<and>
   run (\<lambda>n. int n) 0 (init_cpu 0) = Some (Inl (TypeError, init_cpu 0))"
proof -
  have "\<not> halted (init_cpu 0) \<and> well_formed (init_cpu 0) \<and> 0 \<le> pc (init_cpu 0)
        \<and> pc (init_cpu 0) + 2 < 256"
    by (simp add: well_formed_def init_cpu_def)
  with execute_instruction_timer_guard_raises [of 1000000 HLT 0 0 "init_cpu 0" "\<lambda>n. int n" 0]
  show ?thesis by blast
qed

text \<open>
  Claim C9, evaluated on the code. A fresh machine whose memory holds the unknown opcode
  \<open>0xFF\<close> at address 0 is run: the first cycle raises \<open>TypeError\<close> at the timer guard,
  with nothing printed and \<open>halted\<close> still false. The lookup block alone, entered in
  the same state, would print the diagnostic and set \<open>halted\<close>, leaving registers and
  memory as they were.
\<close>

theorem unknown_opcode_cycle_raises:
  "run (\<lambda>n. int n) 0 ((init_cpu 0)\<lparr>ram := (replicate 256 0)[0 := 0xFF]\<rparr>)
     = Some (Inl (TypeError, (init_cpu 0)\<lparr>ram := (replicate 256 0)[0 := 0xFF]\<rparr>))
   \<and> halted ((init_cpu 0)\<lparr>ram := (replicate 256 0)[0 := 0xFF]\<rparr>) = False
   \<and> stdout ((init_cpu 0)\<lparr>ram := (replicate 256 0)[0 := 0xFF]\<rparr>) = []
   \<and> dispatch 0xFF 0 0 ((init_cpu 0)\<lparr>ram := (replicate 256 0)[0 := 0xFF]\<rparr>)
     = Inr ((), (init_cpu 0)\<lparr>ram := (replicate 256 0)[0 := 0xFF], halted := True,
                               stdout := [''Unknown instruction 255'']\<rparr>)"
proof -
  let ?s = "(init_cpu 0)\<lparr>ram := (replicate 256 0)[0 := 0xFF]\<rparr>"
  have "run (\<lambda>n. int n) 0 ?s = Some (Inl (TypeError, ?s))"
    by (rule run_raises) (simp_all add: well_formed_def init_cpu_def)
  moreover have "map_of branchtable 0xFF = None"
    by (simp add: branchtable_def opcode_defs)
  moreover have "str_int 255 = ''255''"
    by code_simp
  moreover have "drop_bit 6 (255 :: int) AND 3 = 3" "drop_bit 4 (255 :: int) AND 1 = 1"
    by (simp_all add: drop_bit_eq_div and_one_eq)
  ultimately show ?thesis
    by (simp add: dispatch_def andthen_def prim_defs init_cpu_def)
qed

lemma map_of_JEQ: "map_of branchtable JEQ = Some (H1 handle_JEQ)"
  by (simp add: branchtable_def opcode_defs)

lemma map_of_JNE: "map_of branchtable JNE = Some (H1 handle_JNE)"
  by (simp add: branchtable_def opcode_defs)

lemma decode_JEQ: "drop_bit 6 JEQ AND 3 = 1" "drop_bit 4 JEQ AND 1 = 1"
  by (simp_all add: JEQ_def drop_bit_eq_div and_one_eq)

lemma decode_JNE: "drop_bit 6 JNE AND 3 = 1" "drop_bit 4 JNE AND 1 = 1"
  by (simp_all add: JNE_def drop_bit_eq_div and_one_eq)

lemma andthen_ret: "andthen m ret = (m :: unit action)"
  by (rule ext) (simp add: andthen_def ret_def split: sum.splits)

lemma dispatch_JEQ: "dispatch JEQ a b = handle_JEQ a"
  by (simp add: dispatch_def map_of_JEQ decode_JEQ andthen_ret)

lemma dispatch_JNE: "dispatch JNE a b = handle_JNE a"
  by (simp add: dispatch_def map_of_JNE decode_JNE andthen_ret)

lemma handle_JEQ_eq:
  assumes "well_formed s" "0 \<le> r" "r < 8"
  shows "handle_JEQ r s = Inr ((), s\<lparr>pc := (if fl s = E then reg s ! nat r else pc s + 2)\<rparr>)"
  using assms by (simp add: handle_JEQ_def well_formed_def andthen_def reg_get_ok prim_defs)

lemma handle_JNE_eq:
  assumes "well_formed s" "0 \<le> r" "r < 8"
  shows "handle_JNE r s = Inr ((), s\<lparr>pc := (if fl s \<noteq> E then reg s ! nat r else pc s + 2)\<rparr>)"
  using assms by (simp add: handle_JNE_def well_formed_def andthen_def reg_get_ok prim_defs)

text \<open>
  Claim C7, evaluated on the code. A JEQ with target register 2 (\<open>reg[2] = 40\<close>) is
  executed at \<open>PC = 10\<close> with the flags register equal to \<open>E\<close>, and a JNE likewise with
  the flags register equal to \<open>L\<close>: in both cases \<open>execute_instruction\<close> raises
  \<open>TypeError\<close> at the timer guard, so PC stays 10 and the branch is not taken. The
  handlers alone, called in the same states, set PC to 40; called with the opposite
  flags they set PC to 12.
\<close>

theorem jeq_jne_cycle_raises:
  "execute_instruction 1000000 JEQ 2 0
       ((init_cpu 0)\<lparr>reg := [5, 9, 40, 0, 0, 0, 0, 0xF4], pc := 10, fl := E\<rparr>)
     = Inl (TypeError, (init_cpu 0)\<lparr>reg := [5, 9, 40, 0, 0, 0, 0, 0xF4], pc := 10, fl := E\<rparr>)
   \<and> execute_instruction 1000000 JNE 2 0
       ((init_cpu 0)\<lparr>reg := [5, 9, 40, 0, 0, 0, 0, 0xF4], pc := 10, fl := L\<rparr>)
     = Inl (TypeError, (init_cpu 0)\<lparr>reg := [5, 9, 40, 0, 0, 0, 0, 0xF4], pc := 10, fl := L\<rparr>)
   \<and> handle_JEQ 2 ((init_cpu 0)\<lparr>reg := [5, 9, 40, 0, 0, 0, 0, 0xF4], pc := 10, fl := E\<rparr>)
     = Inr ((), (init_cpu 0)\<lparr>reg := [5, 9, 40, 0, 0, 0, 0, 0xF4], pc := 40, fl := E\<rparr>)
   \<and> handle_JNE 2 ((init_cpu 0)\<lparr>reg := [5, 9, 40, 0, 0, 0, 0, 0xF4], pc := 10, fl := L\<rparr>)
     = Inr ((), (init_cpu 0)\<lparr>reg := [5, 9, 40, 0, 0, 0, 0, 0xF4], pc := 40, fl := L\<rparr>)
   \<and> handle_JEQ 2 ((init_cpu 0)\<lparr>reg := [5, 9, 40, 0, 0, 0, 0, 0xF4], pc := 10, fl := L\<rparr>)
     = Inr ((), (init_cpu 0)\<lparr>reg := [5, 9, 40, 0, 0, 0, 0, 0xF4], pc := 12, fl := L\<rparr>)
   \<and> handle_JNE 2 ((init_cpu 0)\<lparr>reg := [5, 9, 40, 0, 0, 0, 0, 0xF4], pc := 10, fl := E\<rparr>)
     = Inr ((), (init_cpu 0)\<lparr>reg := [5, 9, 40, 0, 0, 0, 0, 0xF4], pc := 12, fl := E\<rparr>)"
proof -
  let ?e = "(init_cpu 0)\<lparr>reg := [5, 9, 40, 0, 0, 0, 0, 0xF4], pc := 10, fl := E\<rparr>"
  let ?l = "(init_cpu 0)\<lparr>reg := [5, 9, 40, 0, 0, 0, 0, 0xF4], pc := 10, fl := L\<rparr>"
  have wf: "well_formed ?e" "well_formed ?l"
    by (simp_all add: well_formed_def init_cpu_def)
  have "handle_JEQ 2 ?e = Inr ((), ?e\<lparr>pc := 40\<rparr>)" "handle_JNE 2 ?e = Inr ((), ?e\<lparr>pc := 12\<rparr>)"
    using handle_JEQ_eq [OF wf(1), of 2] handle_JNE_eq [OF wf(1), of 2] by simp_all
  moreover
  have "handle_JEQ 2 ?l = Inr ((), ?l\<lparr>pc := 12\<rparr>)" "handle_JNE 2 ?l = Inr ((), ?l\<lparr>pc := 40\<rparr>)"
    using handle_JEQ_eq [OF wf(2), of 2] handle_JNE_eq [OF wf(2), of 2]
    by (simp_all add: flag_defs)
  ultimately show ?thesis
    by (simp add: execute_instruction_raises)
qed

lemma scan_some: "\<exists>i\<in>set js. bit m i \<Longrightarrow> scan_interrupts m js = save_state"
  by (induction js) (auto simp add: and_one_eq bit_iff_odd_drop_bit mod_2_eq_odd)

lemma below_8: "(i::nat) < 8 \<Longrightarrow> i \<in> set [0, 1, 2, 3, 4, 5, 6, 7]"
  by (simp add: eval_nat_numeral less_Suc_eq)

lemma push_step:
  assumes "length (reg s) = 8" "length (ram s) = 256" "0 \<le> i" "i < 7"
    and "1 \<le> reg s ! 7" "reg s ! 7 \<le> 256"
  shows "push_regs (i # rest) s =
           push_regs rest (s\<lparr>reg := (reg s)[7 := reg s ! 7 - 1],
                             ram := (ram s)[nat (reg s ! 7 - 1) := reg s ! nat i]\<rparr>)"
  using assms
  by (simp add: andthen_def dec_sp_ok reg_get_ok ram_write_ok SP_def nth_list_update)

lemma save_state_ok:
  assumes "well_formed s" "9 \<le> reg s ! 7" "reg s ! 7 \<le> 256"
  shows "save_state s = Inr ((), s\<lparr>
           reg := (reg s)[5 := 0, 6 := 0, 7 := reg s ! 7 - 9],
           ram := (ram s)[nat (reg s ! 7 - 1) := pc s,
                          nat (reg s ! 7 - 2) := fl s,
                          nat (reg s ! 7 - 3) := reg s ! 0,
                          nat (reg s ! 7 - 4) := reg s ! 1,
                          nat (reg s ! 7 - 5) := reg s ! 2,
                          nat (reg s ! 7 - 6) := reg s ! 3,
                          nat (reg s ! 7 - 7) := reg s ! 4,
                          nat (reg s ! 7 - 8) := 0,
                          nat (reg s ! 7 - 9) := 0]\<rparr>)"
  using assms
  by (simp add: save_state_def well_formed_def andthen_def dec_sp_ok reg_get_ok reg_set_ok
      ram_write_ok SP_def prim_defs push_step)

text \<open>
  What the interrupt check does when it is entered with a bit among positions 0 to 7 of
  \<open>reg[5] AND reg[6]\<close> set, and with the nine stack cells below SP being memory
  addresses: registers 5 and 6 are set to zero, then PC, the flags and registers 0 to 6
  are pushed in that order, each push decrementing SP before the write. PC lands at
  \<open>SP - 1\<close>, the flags at \<open>SP - 2\<close>, register \<open>k\<close> at \<open>SP - 3 - k\<close> (registers 5 and 6
  with the zero just stored), and SP ends nine lower. The state is saved once, whichever
  and however many of the eight bits are set.
\<close>

lemma interrupt_check_saves_state:
  assumes "well_formed s" "\<exists>i<8. bit (reg s ! 5 AND reg s ! 6) i"
    and "9 \<le> reg s ! 7" "reg s ! 7 \<le> 256"
  shows "interrupt_check s = Inr ((), s\<lparr>
           reg := (reg s)[5 := 0, 6 := 0, 7 := reg s ! 7 - 9],
           ram := (ram s)[nat (reg s ! 7 - 1) := pc s,
                          nat (reg s ! 7 - 2) := fl s,
                          nat (reg s ! 7 - 3) := reg s ! 0,
                          nat (reg s ! 7 - 4) := reg s ! 1,
                          nat (reg s ! 7 - 5) := reg s ! 2,
                          nat (reg s ! 7 - 6) := reg s ! 3,
                          nat (reg s ! 7 - 7) := reg s ! 4,
                          nat (reg s ! 7 - 8) := 0,
                          nat (reg s ! 7 - 9) := 0]\<rparr>)"
proof -
  from assms(2) have "\<exists>i\<in>set [0, 1, 2, 3, 4, 5, 6, 7]. bit (reg s ! 5 AND reg s ! 6) i"
    using below_8 by blast
  then have "scan_interrupts (reg s ! 5 AND reg s ! 6) [0, 1, 2, 3, 4, 5, 6, 7] = save_state"
    by (rule scan_some)
  with assms(1) have "interrupt_check s = save_state s"
    by (simp add: interrupt_check_def andthen_def well_formed_def reg_get_ok)
  with assms show ?thesis by (simp only: save_state_ok)
qed

text \<open>
  Claim C10, evaluated on the code. A cycle starts with the masked interrupt bit 1
  pending (\<open>reg[5] = 6\<close>, \<open>reg[6] = 3\<close>): \<open>execute_instruction\<close> raises \<open>TypeError\<close> at
  the timer guard, so registers 5 and 6 keep their values and nothing is pushed. The
  interrupt check alone, entered in the same state, would clear both registers and push
  PC, the flags and registers 0 to 6.
\<close>

theorem pending_interrupt_cycle_raises:
  "execute_instruction 1000000 HLT 0 0
       ((init_cpu 0)\<lparr>reg := [11, 12, 13, 14, 15, 6, 3, 0xF4], pc := 6, fl := 4\<rparr>)
     = Inl (TypeError, (init_cpu 0)\<lparr>reg := [11, 12, 13, 14, 15, 6, 3, 0xF4], pc := 6, fl := 4\<rparr>)
   \<and> interrupt_check ((init_cpu 0)\<lparr>reg := [11, 12, 13, 14, 15, 6, 3, 0xF4], pc := 6, fl := 4\<rparr>)
     = Inr ((), (init_cpu 0)\<lparr>
         reg := [11, 12, 13, 14, 15, 0, 0, 0xEB], pc := 6, fl := 4,
         ram := (replicate 256 0)[0xF3 := 6, 0xF2 := 4, 0xF1 := 11, 0xF0 := 12, 0xEF := 13,
                  0xEE := 14, 0xED := 15, 0xEC := 0, 0xEB := 0]\<rparr>)"
proof -
  let ?s = "(init_cpu 0)\<lparr>reg := [11, 12, 13, 14, 15, 6, 3, 0xF4], pc := 6, fl := 4\<rparr>"
  have "bit (reg ?s ! 5 AND reg ?s ! 6) (1::nat)"
    by (simp add: bit_iff_odd_drop_bit drop_bit_eq_div)
  then have "\<exists>i<8. bit (reg ?s ! 5 AND reg ?s ! 6) i"
    by (intro exI [of _ 1]) simp
  moreover have "well_formed ?s" "9 \<le> reg ?s ! 7" "reg ?s ! 7 \<le> 256"
    by (simp_all add: well_formed_def init_cpu_def)
  ultimately show ?thesis
    using interrupt_check_saves_state [of ?s]
    by (simp add: init_cpu_def execute_instruction_raises)
qed


end
